theory Spec2Isabelle
  imports Main
begin

section \<open>The object storage upload facade of drfc_manager\<close>

text \<open>
  The module \<^verbatim>\<open>drfc_manager/utils/minio/utilities.py\<close> is a layer of seven functions over
  a storage client. Each function builds the arguments of one client call (two for the
  folder removal), issues it inside a \<^verbatim>\<open>try\<close> block, turns the answer into a boolean and
  maps every failure to one exception class. The embedding keeps that shape: a client is the
  record of its answers, an operation returns the list of client calls it issued together
  with what the Python function returns or raises.
\<close>

subsection \<open>Python values\<close>

text \<open>
  \<^verbatim>\<open>bytes\<close> and \<^verbatim>\<open>str\<close> are both lists of characters here; \<^verbatim>\<open>len\<close> of a \<^verbatim>\<open>bytes\<close> value is the
  length of the list.
\<close>

type_synonym bytes = string

text \<open>
  A value of \<^verbatim>\<open>io.BytesIO\<close>: the bytes it holds and the position of the next read.
  \<^verbatim>\<open>getbuffer().nbytes\<close> is the size of the whole content, whatever the position.
\<close>

datatype BytesIO = BytesIO (getvalue: bytes) (tell: nat)

definition nbytes :: "BytesIO \<Rightarrow> nat" where
  "nbytes b = length (getvalue b)"

text \<open>
  What \<^verbatim>\<open>str()\<close> and an f-string field make of the result of \<^verbatim>\<open>os.getenv\<close>: the string
  itself, or the text \<^verbatim>\<open>None\<close> when the variable is not set.
\<close>

fun py_str :: "string option \<Rightarrow> string" where
  "py_str None = ''None''"
| "py_str (Some s) = s"

text \<open>An object returned by the client; only its truth value and its attributes are used.\<close>

datatype py_object = PyObject string

text \<open>\<^verbatim>\<open>True if result else False\<close> on a result that is an object or \<^verbatim>\<open>None\<close>.\<close>

fun truthy :: "py_object option \<Rightarrow> bool" where
  "truthy None = False"
| "truthy (Some obj) = True"

subsection \<open>Exceptions\<close>

text \<open>
  The type below holds the instances of Python's class \<^verbatim>\<open>Exception\<close>, split the way the
  handlers of the module split them: \<^verbatim>\<open>except MinioException\<close> takes the instances of
  \<^verbatim>\<open>minio.error.MinioException\<close>, \<^verbatim>\<open>except Exception\<close> takes every other one. The string is
  the exception's own text. Interpreter signals that are not instances of \<^verbatim>\<open>Exception\<close>
  (\<^verbatim>\<open>KeyboardInterrupt\<close>, \<^verbatim>\<open>SystemExit\<close>) are not errors of a client call and have no place in
  the type.
\<close>

text \<open>
  Modelled from the spec: the class \<^verbatim>\<open>FileUploadException\<close>, which the module imports from
  \<^verbatim>\<open>drfc_manager/utils/minio/exceptions/file_upload_exception.py\<close>. The spec describes it as
  the single failure kind, carrying either a human-readable message or a wrapped underlying
  error; the constructor records the two keyword arguments \<^verbatim>\<open>message\<close> and
  \<^verbatim>\<open>original_exception\<close> of each \<^verbatim>\<open>raise\<close>, an argument that is not passed being \<^verbatim>\<open>None\<close>.
  It is a kind of its own, not a \<^verbatim>\<open>MinioException\<close>.
\<close>

datatype exception =
    MinioException string
  | FileUploadException (message: "string option") (original_exception: "exception option")
  | OtherException string

text \<open>A call returns a value (\<open>Inr\<close>) or raises (\<open>Inl\<close>).\<close>

type_synonym 'a outcome = "exception + 'a"

text \<open>
  The pair of handlers that closes every operation but the existence check:
  \<^verbatim>\<open>
  except MinioException:
      raise FileUploadException(message=...)
  except Exception as e:
      raise FileUploadException(original_exception=e)
  \<close>
\<close>

fun handlers :: "string \<Rightarrow> exception \<Rightarrow> exception" where
  "handlers msg (MinioException _) = FileUploadException (Some msg) None"
| "handlers msg e = FileUploadException None (Some e)"

subsection \<open>The storage client\<close>

text \<open>Value classes of the client library: a listed object, a deletion request, a copy source,
  and the per-key error of a batch deletion.\<close>

datatype Object = Object (object_name_of: string) (etag_of: string)

datatype DeleteObject = DeleteObject (delete_name: string)

datatype CopySource = CopySource (source_bucket: "string option") (source_object: string)

datatype DeleteError = DeleteError (error_code: string) (error_key: string)

text \<open>
  The client as the module uses it: six methods, each answering a call by a value or an
  exception. The bucket argument is whatever \<^verbatim>\<open>os.getenv\<close> gave, so it may be \<^verbatim>\<open>None\<close>.
  \<^verbatim>\<open>list_objects\<close> answers with all the objects the iteration yields, or with the exception
  the iteration stops at.
\<close>

record MinioClient =
  client_put_object :: "string option \<Rightarrow> string \<Rightarrow> BytesIO \<Rightarrow> nat \<Rightarrow> string \<Rightarrow> py_object option outcome"
  client_fput_object :: "string option \<Rightarrow> string \<Rightarrow> string \<Rightarrow> py_object option outcome"
  client_stat_object :: "string option \<Rightarrow> string \<Rightarrow> py_object outcome"
  client_copy_object :: "string option \<Rightarrow> string \<Rightarrow> CopySource \<Rightarrow> py_object outcome"
  client_list_objects :: "string option \<Rightarrow> string \<Rightarrow> Object list outcome"
  client_remove_objects :: "string option \<Rightarrow> DeleteObject list \<Rightarrow> DeleteError list outcome"

text \<open>The calls an operation issues, with their arguments, in the order of issue.\<close>

datatype call =
    PutObject "string option" string BytesIO nat string
  | FPutObject "string option" string string
  | StatObject "string option" string
  | CopyObject "string option" string CopySource
  | ListObjects "string option" string
  | RemoveObjects "string option" "DeleteObject list"


text \<open>What an operation does: the calls it issued and how it ended.\<close>

type_synonym run = "call list \<times> bool outcome"

definition calls :: "run \<Rightarrow> call list" where
  "calls r = fst r"

definition result :: "run \<Rightarrow> bool outcome" where
  "result r = snd r"

subsection \<open>Module configuration\<close>

text \<open>
  The three module-level names, bound once when the module is imported:
  \<^verbatim>\<open>
  _bucket_name = os.getenv('BUCKET_NAME')
  _custom_files_folder = os.getenv('CUSTOM_FILES_FOLDER_PATH')
  _reward_function_path = os.getenv('REWARD_FUNCTION_PATH')
  \<close>
  The operations read these names and never the environment.
\<close>

record globals =
  bucket_name :: "string option"
  custom_files_folder :: "string option"
  reward_function_path :: "string option"



subsection \<open>The operations\<close>

text \<open>
  \<^verbatim>\<open>orjson.dumps\<close> is a parameter: it answers with the serialized bytes or raises
  \<^verbatim>\<open>JSONEncodeError\<close>, a \<^verbatim>\<open>TypeError\<close>, with a text (\<open>Inl\<close>). The record types
  \<^verbatim>\<open>HyperParameters\<close> and \<^verbatim>\<open>ModelMetadata\<close> are type parameters.
\<close>

definition upload_hyperparameters ::
  "globals \<Rightarrow> ('h \<Rightarrow> string + bytes) \<Rightarrow> MinioClient \<Rightarrow> 'h \<Rightarrow> run" where
  "upload_hyperparameters g dumps minio_client hyperparameters =
     (case dumps hyperparameters of
        Inl err \<Rightarrow> ([], Inl (FileUploadException None (Some (OtherException err))))
      | Inr hyperparameters_serialized \<Rightarrow>
          (let object_size = length hyperparameters_serialized;
               object_name = ''hyperparameters.json'';
               key = py_str (custom_files_folder g) @ ''/'' @ object_name;
               stream = BytesIO hyperparameters_serialized 0
           in ([PutObject (bucket_name g) key stream object_size ''application/json''],
               case client_put_object minio_client (bucket_name g) key stream object_size
                      ''application/json'' of
                 Inr res \<Rightarrow> Inr (truthy res)
               | Inl e \<Rightarrow>
                   Inl (handlers (''Error uploading '' @ object_name @ '' file to S3 bucket'') e))))"

definition upload_reward_function :: "globals \<Rightarrow> MinioClient \<Rightarrow> BytesIO \<Rightarrow> run" where
  "upload_reward_function g minio_client reward_function_buffer =
     (let buffer_size = nbytes reward_function_buffer;
          object_name = ''reward_function.py'';
          key = py_str (custom_files_folder g) @ ''/'' @ object_name
      in ([PutObject (bucket_name g) key reward_function_buffer buffer_size ''text/plain''],
          case client_put_object minio_client (bucket_name g) key reward_function_buffer
                 buffer_size ''text/plain'' of
            Inr res \<Rightarrow> Inr (truthy res)
          | Inl e \<Rightarrow>
              Inl (handlers (''Error uploading '' @ object_name @ ''  file to S3 bucket'') e)))"

definition upload_metadata ::
  "globals \<Rightarrow> ('m \<Rightarrow> string + bytes) \<Rightarrow> MinioClient \<Rightarrow> 'm \<Rightarrow> run" where
  "upload_metadata g dumps minio_client model_metadata =
     (case dumps model_metadata of
        Inl err \<Rightarrow> ([], Inl (FileUploadException None (Some (OtherException err))))
      | Inr model_metadata_serialized \<Rightarrow>
          (let object_size = length model_metadata_serialized;
               object_name = ''model_metadata.json'';
               key = py_str (custom_files_folder g) @ ''/'' @ object_name;
               stream = BytesIO model_metadata_serialized 0
           in ([PutObject (bucket_name g) key stream object_size ''application/json''],
               case client_put_object minio_client (bucket_name g) key stream object_size
                      ''application/json'' of
                 Inr res \<Rightarrow> Inr (truthy res)
               | Inl e \<Rightarrow>
                   Inl (handlers (''Error uploading '' @ object_name @ ''  file to S3 bucket'') e))))"

definition upload_local_data :: "globals \<Rightarrow> MinioClient \<Rightarrow> string \<Rightarrow> string \<Rightarrow> run" where
  "upload_local_data g minio_client local_data_path object_name =
     ([FPutObject (bucket_name g) object_name local_data_path],
      case client_fput_object minio_client (bucket_name g) object_name local_data_path of
        Inr res \<Rightarrow> Inr (truthy res)
      | Inl e \<Rightarrow>
          Inl (handlers (''Error uploading '' @ object_name @ ''  file to S3 bucket'') e))"

definition check_if_object_exists :: "globals \<Rightarrow> MinioClient \<Rightarrow> string \<Rightarrow> run" where
  "check_if_object_exists g minio_client object_name =
     ([StatObject (bucket_name g) object_name],
      case client_stat_object minio_client (bucket_name g) object_name of
        Inr _ \<Rightarrow> Inr True
      | Inl _ \<Rightarrow> Inr False)"

definition copy_object :: "globals \<Rightarrow> MinioClient \<Rightarrow> string \<Rightarrow> string \<Rightarrow> run" where
  "copy_object g minio_client source_object_name dest_object_name =
     (let source = CopySource (bucket_name g) source_object_name
      in ([CopyObject (bucket_name g) dest_object_name source],
          case client_copy_object minio_client (bucket_name g) dest_object_name source of
            Inr _ \<Rightarrow> Inr True
          | Inl e \<Rightarrow>
              Inl (handlers
                     (''Error copying '' @ source_object_name @ '' to '' @ dest_object_name) e)))"

definition remove_objects_folder :: "globals \<Rightarrow> MinioClient \<Rightarrow> string \<Rightarrow> run" where
  "remove_objects_folder g minio_client object_name =
     (let msg = ''Error deleting '' @ object_name @ '' folder''
      in case client_list_objects minio_client (bucket_name g) object_name of
           Inl e \<Rightarrow> ([ListObjects (bucket_name g) object_name], Inl (handlers msg e))
         | Inr objects \<Rightarrow>
             (let objects_names = map object_name_of objects;
                  delete_objects = map DeleteObject objects_names
              in ([ListObjects (bucket_name g) object_name,
                   RemoveObjects (bucket_name g) delete_objects],
                  case client_remove_objects minio_client (bucket_name g) delete_objects of
                    Inr _ \<Rightarrow> Inr True
                  | Inl e \<Rightarrow> Inl (handlers msg e))))"

subsection \<open>The name substituted in the hyperparameters upload\<close>

text \<open>
  For the comparison of the two JSON uploads: the body of \<^verbatim>\<open>upload_hyperparameters\<close> with the
  fixed name \<^verbatim>\<open>'hyperparameters.json'\<close> replaced by a parameter, in the key and in the
  message. This is what "the same as \<^verbatim>\<open>upload_hyperparameters\<close> up to the object name" means.
\<close>

definition upload_hyperparameters_named ::
  "string \<Rightarrow> globals \<Rightarrow> ('h \<Rightarrow> string + bytes) \<Rightarrow> MinioClient \<Rightarrow> 'h \<Rightarrow> run" where
  "upload_hyperparameters_named object_name g dumps minio_client hyperparameters =
     (case dumps hyperparameters of
        Inl err \<Rightarrow> ([], Inl (FileUploadException None (Some (OtherException err))))
      | Inr hyperparameters_serialized \<Rightarrow>
          (let object_size = length hyperparameters_serialized;
               key = py_str (custom_files_folder g) @ ''/'' @ object_name;
               stream = BytesIO hyperparameters_serialized 0
           in ([PutObject (bucket_name g) key stream object_size ''application/json''],
               case client_put_object minio_client (bucket_name g) key stream object_size
                      ''application/json'' of
                 Inr res \<Rightarrow> Inr (truthy res)
               | Inl e \<Rightarrow>
                   Inl (handlers (''Error uploading '' @ object_name @ '' file to S3 bucket'') e))))"

subsection \<open>Sample inputs\<close>

text \<open>The configuration of the end-to-end scenario: bucket \<^verbatim>\<open>models\<close>, prefix \<^verbatim>\<open>custom\<close>.\<close>

definition sample_globals :: globals where
  "sample_globals =
     \<lparr> bucket_name = Some ''models'', custom_files_folder = Some ''custom'',
       reward_function_path = None \<rparr>"

text \<open>A client that accepts every call; it lists \<open>listed\<close> and reports \<open>errs\<close> from a
  batch deletion.\<close>

definition accepting_client :: "Object list \<Rightarrow> DeleteError list \<Rightarrow> MinioClient" where
  "accepting_client listed errs =
     \<lparr> client_put_object = (\<lambda>_ _ _ _ _. Inr (Some (PyObject ''ObjectWriteResult''))),
       client_fput_object = (\<lambda>_ _ _. Inr (Some (PyObject ''ObjectWriteResult''))),
       client_stat_object = (\<lambda>_ _. Inr (PyObject ''Object'')),
       client_copy_object = (\<lambda>_ _ _. Inr (PyObject ''ObjectWriteResult'')),
       client_list_objects = (\<lambda>_ _. Inr listed),
       client_remove_objects = (\<lambda>_ _. Inr errs) \<rparr>"

text \<open>A client every call of which raises \<open>e\<close>, but for the listing of the prefix
  \<^verbatim>\<open>models/\<close>, which yields one object.\<close>

definition raising_client :: "exception \<Rightarrow> MinioClient" where
  "raising_client e =
     \<lparr> client_put_object = (\<lambda>_ _ _ _ _. Inl e),
       client_fput_object = (\<lambda>_ _ _. Inl e),
       client_stat_object = (\<lambda>_ _. Inl e),
       client_copy_object = (\<lambda>_ _ _. Inl e),
       client_list_objects =
         (\<lambda>_ prefix. if prefix = ''models/'' then Inr [Object ''models/a.tar'' ''0''] else Inl e),
       client_remove_objects = (\<lambda>_ _. Inl e) \<rparr>"

text \<open>A serializer and its inverse for the worked examples: the JSON documents \<^verbatim>\<open>true\<close> and
  \<^verbatim>\<open>false\<close>.\<close>

definition sample_dumps :: "bool \<Rightarrow> string + bytes" where
  "sample_dumps v = Inr (if v then ''true'' else ''false'')"




section \<open>Properties\<close>

lemma wrapped_is_new: "FileUploadException None (Some e) \<noteq> e"
proof
  assume "FileUploadException None (Some e) = e"
  then have "size (FileUploadException None (Some e)) = size e" by simp
  then show False by simp
qed

lemma handlers_is_new: "handlers msg e \<noteq> e"
  using wrapped_is_new [of e] by (cases e) simp_all

subsection \<open>What the upload operations compute\<close>

lemma upload_hyperparameters_run:
  "dumps h = Inr b \<Longrightarrow>
   upload_hyperparameters g dumps c h =
     ([PutObject (bucket_name g) (py_str (custom_files_folder g) @ ''/hyperparameters.json'')
         (BytesIO b 0) (length b) ''application/json''],
      case client_put_object c (bucket_name g)
             (py_str (custom_files_folder g) @ ''/hyperparameters.json'')
             (BytesIO b 0) (length b) ''application/json'' of
        Inr res \<Rightarrow> Inr (truthy res)
      | Inl e \<Rightarrow> Inl (handlers ''Error uploading hyperparameters.json file to S3 bucket'' e))"
  by (simp add: upload_hyperparameters_def Let_def split: sum.splits)

lemma upload_metadata_run:
  "dumps m = Inr b \<Longrightarrow>
   upload_metadata g dumps c m =
     ([PutObject (bucket_name g) (py_str (custom_files_folder g) @ ''/model_metadata.json'')
         (BytesIO b 0) (length b) ''application/json''],
      case client_put_object c (bucket_name g)
             (py_str (custom_files_folder g) @ ''/model_metadata.json'')
             (BytesIO b 0) (length b) ''application/json'' of
        Inr res \<Rightarrow> Inr (truthy res)
      | Inl e \<Rightarrow> Inl (handlers ''Error uploading model_metadata.json  file to S3 bucket'' e))"
  by (simp add: upload_metadata_def Let_def split: sum.splits)

lemma truthy_iff: "truthy res \<longleftrightarrow> (\<exists>obj. res = Some obj)"
  by (cases res) simp_all

lemma answer_True_iff:
  "(case a of Inr res \<Rightarrow> Inr (truthy res) | Inl e \<Rightarrow> Inl (handlers msg e)) = Inr True
     \<longleftrightarrow> (\<exists>obj. a = Inr (Some obj))"
  by (cases a) (simp_all add: truthy_iff)

lemma answer_False_iff:
  "(case a of Inr res \<Rightarrow> Inr (truthy res) | Inl e \<Rightarrow> Inl (handlers msg e)) = Inr False
     \<longleftrightarrow> a = Inr None"
  by (cases a) (simp_all add: truthy_iff)

lemma upload_reward_function_run:
  "upload_reward_function g c buf =
     ([PutObject (bucket_name g) (py_str (custom_files_folder g) @ ''/reward_function.py'')
         buf (length (getvalue buf)) ''text/plain''],
      case client_put_object c (bucket_name g)
             (py_str (custom_files_folder g) @ ''/reward_function.py'')
             buf (length (getvalue buf)) ''text/plain'' of
        Inr res \<Rightarrow> Inr (truthy res)
      | Inl e \<Rightarrow> Inl (handlers ''Error uploading reward_function.py  file to S3 bucket'' e))"
  by (simp add: upload_reward_function_def nbytes_def Let_def split: sum.splits)

lemma upload_local_data_run:
  "upload_local_data g c path name =
     ([FPutObject (bucket_name g) name path],
      case client_fput_object c (bucket_name g) name path of
        Inr res \<Rightarrow> Inr (truthy res)
      | Inl e \<Rightarrow> Inl (handlers (''Error uploading '' @ name @ ''  file to S3 bucket'') e))"
  by (simp add: upload_local_data_def)

lemma copy_object_run:
  "copy_object g c src dst =
     ([CopyObject (bucket_name g) dst (CopySource (bucket_name g) src)],
      case client_copy_object c (bucket_name g) dst (CopySource (bucket_name g) src) of
        Inr _ \<Rightarrow> Inr True
      | Inl e \<Rightarrow> Inl (handlers (''Error copying '' @ src @ '' to '' @ dst) e))"
  by (simp add: copy_object_def Let_def)

lemma remove_objects_folder_listed:
  "client_list_objects c (bucket_name g) p = Inr objs \<Longrightarrow>
   remove_objects_folder g c p =
     ([ListObjects (bucket_name g) p,
       RemoveObjects (bucket_name g) (map (\<lambda>obj. DeleteObject (object_name_of obj)) objs)],
      case client_remove_objects c (bucket_name g)
             (map (\<lambda>obj. DeleteObject (object_name_of obj)) objs) of
        Inr _ \<Rightarrow> Inr True
      | Inl e \<Rightarrow> Inl (handlers (''Error deleting '' @ p @ '' folder'') e))"
  by (simp add: remove_objects_folder_def Let_def comp_def split: sum.splits)

lemma remove_objects_folder_not_listed:
  "client_list_objects c (bucket_name g) p = Inl e \<Longrightarrow>
   remove_objects_folder g c p =
     ([ListObjects (bucket_name g) p], Inl (handlers (''Error deleting '' @ p @ '' folder'') e))"
  by (simp add: remove_objects_folder_def Let_def)

lemma handlers_case:
  "handlers msg e =
     (case e of MinioException _ \<Rightarrow> FileUploadException (Some msg) None
      | _ \<Rightarrow> FileUploadException None (Some e))"
  by (cases e) simp_all

lemma surfaced:
  "r = Inl (handlers msg e) \<Longrightarrow>
   r = Inl (case e of
              MinioException _ \<Rightarrow> FileUploadException (Some msg) None
            | _ \<Rightarrow> FileUploadException None (Some e))
   \<and> r \<noteq> Inl e"
  using handlers_case [of msg e] handlers_is_new [of msg e] by simp


subsection \<open>The existence check\<close>

text \<open>
  C2. \<^verbatim>\<open>check_if_object_exists\<close> issues one \<^verbatim>\<open>stat_object\<close> call on the configured bucket
  and the given name. Whatever exception that call raises (the storage error of an absent
  object as much as any other), the answer is \<^verbatim>\<open>False\<close>; the answer is \<^verbatim>\<open>True\<close> exactly
  when the call returns; and the function itself never raises.
\<close>

theorem check_if_object_exists_swallows:
  "calls (check_if_object_exists g c n) = [StatObject (bucket_name g) n]
   \<and> (\<forall>e. client_stat_object c (bucket_name g) n = Inl e \<longrightarrow>
          result (check_if_object_exists g c n) = Inr False)
   \<and> (result (check_if_object_exists g c n) = Inr True
        \<longleftrightarrow> (\<exists>v. client_stat_object c (bucket_name g) n = Inr v))
   \<and> (\<forall>e. result (check_if_object_exists g c n) \<noteq> Inl e)"
  by (simp add: check_if_object_exists_def result_def calls_def split: sum.splits)

theorem check_if_object_exists_swallows_witness:
  "client_stat_object (raising_client (MinioException ''NoSuchKey'')) (bucket_name sample_globals)
     ''custom/hyperparameters.json'' = Inl (MinioException ''NoSuchKey'')
   \<and> result (check_if_object_exists sample_globals (raising_client (MinioException ''NoSuchKey''))
        ''custom/hyperparameters.json'') = Inr False
   \<and> client_stat_object (raising_client (OtherException ''ConnectionError'')) (bucket_name sample_globals)
     ''custom/hyperparameters.json'' = Inl (OtherException ''ConnectionError'')
   \<and> result (check_if_object_exists sample_globals (raising_client (OtherException ''ConnectionError''))
        ''custom/hyperparameters.json'') = Inr False"
proof -
  have absent: "client_stat_object (raising_client (MinioException ''NoSuchKey''))
      (bucket_name sample_globals) ''custom/hyperparameters.json'' = Inl (MinioException ''NoSuchKey'')"
    by (simp add: raising_client_def)
  have broken: "client_stat_object (raising_client (OtherException ''ConnectionError''))
      (bucket_name sample_globals) ''custom/hyperparameters.json''
        = Inl (OtherException ''ConnectionError'')"
    by (simp add: raising_client_def)
  from absent broken
    check_if_object_exists_swallows [of sample_globals
      "raising_client (MinioException ''NoSuchKey'')" "''custom/hyperparameters.json''"]
    check_if_object_exists_swallows [of sample_globals
      "raising_client (OtherException ''ConnectionError'')" "''custom/hyperparameters.json''"]
  show ?thesis by blast
qed

subsection \<open>The JSON uploads\<close>




subsection \<open>The reward function upload\<close>

text \<open>
  C5. \<^verbatim>\<open>upload_reward_function\<close> issues one \<^verbatim>\<open>put_object\<close> call with the key
  \<^verbatim>\<open>{prefix}/reward_function.py\<close> and the content type \<^verbatim>\<open>text/plain\<close>. The stream of the call
  is the supplied buffer itself, with the content and the position it came with, and the
  length argument is the byte count of the whole buffer. The function returns \<^verbatim>\<open>True\<close>
  exactly when the client returns a result object, \<^verbatim>\<open>False\<close> exactly when it returns \<^verbatim>\<open>None\<close>.
\<close>

theorem upload_reward_function_passes_buffer:
  "calls (upload_reward_function g c buf) =
     [PutObject (bucket_name g) (py_str (custom_files_folder g) @ ''/reward_function.py'')
        buf (length (getvalue buf)) ''text/plain'']
   \<and> (\<forall>bk k s n ct. PutObject bk k s n ct \<in> set (calls (upload_reward_function g c buf)) \<longrightarrow>
         s = buf \<and> getvalue s = getvalue buf \<and> tell s = tell buf \<and> n = length (getvalue buf))
   \<and> (result (upload_reward_function g c buf) = Inr True \<longleftrightarrow>
        (\<exists>obj. client_put_object c (bucket_name g)
                 (py_str (custom_files_folder g) @ ''/reward_function.py'')
                 buf (length (getvalue buf)) ''text/plain'' = Inr (Some obj)))
   \<and> (result (upload_reward_function g c buf) = Inr False \<longleftrightarrow>
        client_put_object c (bucket_name g)
          (py_str (custom_files_folder g) @ ''/reward_function.py'')
          buf (length (getvalue buf)) ''text/plain'' = Inr None)"
  by (simp add: upload_reward_function_run calls_def result_def answer_True_iff answer_False_iff)

theorem upload_reward_function_passes_buffer_witness:
  "calls (upload_reward_function sample_globals (accepting_client [] [])
            (BytesIO ''return 1.0'' 0)) =
     [PutObject (Some ''models'') ''custom/reward_function.py''
        (BytesIO ''return 1.0'' 0) 10 ''text/plain'']
   \<and> result (upload_reward_function sample_globals (accepting_client [] [])
            (BytesIO ''return 1.0'' 0)) = Inr True"
proof -
  let ?buf = "BytesIO ''return 1.0'' 0"
  let ?run = "upload_reward_function sample_globals (accepting_client [] []) ?buf"
  note fact = upload_reward_function_passes_buffer [of sample_globals "accepting_client [] []" ?buf]
  have accepted: "client_put_object (accepting_client [] []) (bucket_name sample_globals)
      (py_str (custom_files_folder sample_globals) @ ''/reward_function.py'')
      ?buf (length (getvalue ?buf)) ''text/plain'' = Inr (Some (PyObject ''ObjectWriteResult''))"
    by (simp add: accepting_client_def)
  from fact have "calls ?run =
     [PutObject (bucket_name sample_globals)
        (py_str (custom_files_folder sample_globals) @ ''/reward_function.py'')
        ?buf (length (getvalue ?buf)) ''text/plain'']"
    by (rule conjunct1)
  then have issued: "calls ?run =
     [PutObject (Some ''models'') ''custom/reward_function.py'' ?buf 10 ''text/plain'']"
    by (simp add: sample_globals_def)
  from fact accepted have "result ?run = Inr True"
    by blast
  with issued show ?thesis
    by (rule conjI)
qed

subsection \<open>The local file upload\<close>

text \<open>
  C7. \<^verbatim>\<open>upload_local_data\<close> issues one \<^verbatim>\<open>fput_object\<close> call whose key is the object name the
  caller gave, with no prefix and no change, and whose file is the local path. It returns
  \<^verbatim>\<open>True\<close> exactly when the client returns a result object, \<^verbatim>\<open>False\<close> exactly when it
  returns \<^verbatim>\<open>None\<close>.
\<close>

theorem upload_local_data_key_verbatim:
  "calls (upload_local_data g c path name) = [FPutObject (bucket_name g) name path]
   \<and> (result (upload_local_data g c path name) = Inr True \<longleftrightarrow>
        (\<exists>obj. client_fput_object c (bucket_name g) name path = Inr (Some obj)))
   \<and> (result (upload_local_data g c path name) = Inr False \<longleftrightarrow>
        client_fput_object c (bucket_name g) name path = Inr None)"
  by (simp add: upload_local_data_run calls_def result_def answer_True_iff answer_False_iff)

theorem upload_local_data_key_verbatim_witness:
  "calls (upload_local_data sample_globals (accepting_client [] []) ''/tmp/model.tar.gz''
            ''uploads/model.tar.gz'')
     = [FPutObject (Some ''models'') ''uploads/model.tar.gz'' ''/tmp/model.tar.gz'']
   \<and> result (upload_local_data sample_globals (accepting_client [] []) ''/tmp/model.tar.gz''
            ''uploads/model.tar.gz'') = Inr True"
proof -
  let ?c = "accepting_client [] []"
  note fact = upload_local_data_key_verbatim
    [of sample_globals ?c "''/tmp/model.tar.gz''" "''uploads/model.tar.gz''"]
  have "\<exists>obj. client_fput_object ?c (bucket_name sample_globals) ''uploads/model.tar.gz''
          ''/tmp/model.tar.gz'' = Inr (Some obj)"
    by (simp add: accepting_client_def)
  with fact [THEN conjunct2, THEN conjunct1]
  have stored: "result (upload_local_data sample_globals ?c ''/tmp/model.tar.gz''
            ''uploads/model.tar.gz'') = Inr True"
    by (rule iffD2)
  from fact [THEN conjunct1]
  have issued: "calls (upload_local_data sample_globals ?c ''/tmp/model.tar.gz''
            ''uploads/model.tar.gz'')
     = [FPutObject (Some ''models'') ''uploads/model.tar.gz'' ''/tmp/model.tar.gz'']"
    by (simp add: sample_globals_def)
  show ?thesis
    by (intro conjI issued stored)
qed

subsection \<open>The server-side copy\<close>

text \<open>
  C6. \<^verbatim>\<open>copy_object\<close> issues exactly one \<^verbatim>\<open>copy_object\<close> call of the client: to the
  destination name in the configured bucket, from a \<^verbatim>\<open>CopySource\<close> of the source name in the
  same bucket. It returns \<^verbatim>\<open>True\<close> exactly when that call returns; when the call raises,
  it raises a \<^verbatim>\<open>FileUploadException\<close>.
\<close>

theorem copy_object_one_call:
  "calls (copy_object g c src dst) =
     [CopyObject (bucket_name g) dst (CopySource (bucket_name g) src)]
   \<and> (\<forall>bk d s. CopyObject bk d s \<in> set (calls (copy_object g c src dst)) \<longrightarrow>
         source_bucket s = bk \<and> bk = bucket_name g \<and> source_object s = src \<and> d = dst)
   \<and> (result (copy_object g c src dst) = Inr True \<longleftrightarrow>
        (\<exists>v. client_copy_object c (bucket_name g) dst (CopySource (bucket_name g) src) = Inr v))
   \<and> (\<forall>e. client_copy_object c (bucket_name g) dst (CopySource (bucket_name g) src) = Inl e \<longrightarrow>
         result (copy_object g c src dst) =
           Inl (case e of
                  MinioException _ \<Rightarrow>
                    FileUploadException (Some (''Error copying '' @ src @ '' to '' @ dst)) None
                | _ \<Rightarrow> FileUploadException None (Some e)))"
proof -
  have one: "calls (copy_object g c src dst) =
     [CopyObject (bucket_name g) dst (CopySource (bucket_name g) src)]"
    by (simp add: copy_object_run calls_def)
  have same: "\<forall>bk d s. CopyObject bk d s \<in> set (calls (copy_object g c src dst)) \<longrightarrow>
         source_bucket s = bk \<and> bk = bucket_name g \<and> source_object s = src \<and> d = dst"
    by (simp add: one)
  have ok: "result (copy_object g c src dst) = Inr True \<longleftrightarrow>
        (\<exists>v. client_copy_object c (bucket_name g) dst (CopySource (bucket_name g) src) = Inr v)"
    by (cases "client_copy_object c (bucket_name g) dst (CopySource (bucket_name g) src)")
       (simp_all add: copy_object_run result_def)
  have failed: "\<forall>e. client_copy_object c (bucket_name g) dst (CopySource (bucket_name g) src) = Inl e \<longrightarrow>
         result (copy_object g c src dst) =
           Inl (case e of
                  MinioException _ \<Rightarrow>
                    FileUploadException (Some (''Error copying '' @ src @ '' to '' @ dst)) None
                | _ \<Rightarrow> FileUploadException None (Some e))"
    by (simp add: copy_object_run result_def handlers_case split: exception.splits)
  show ?thesis
    by (intro conjI one same ok failed)
qed

theorem copy_object_one_call_witness:
  "client_copy_object (accepting_client [] []) (bucket_name sample_globals) ''b.json''
      (CopySource (bucket_name sample_globals) ''a.json'') = Inr (PyObject ''ObjectWriteResult'')
   \<and> calls (copy_object sample_globals (accepting_client [] []) ''a.json'' ''b.json'') =
       [CopyObject (Some ''models'') ''b.json'' (CopySource (Some ''models'') ''a.json'')]
   \<and> result (copy_object sample_globals (accepting_client [] []) ''a.json'' ''b.json'') = Inr True
   \<and> client_copy_object (raising_client (OtherException ''ConnectionError''))
        (bucket_name sample_globals) ''b.json''
        (CopySource (bucket_name sample_globals) ''a.json'') = Inl (OtherException ''ConnectionError'')
   \<and> result (copy_object sample_globals (raising_client (OtherException ''ConnectionError''))
        ''a.json'' ''b.json'')
       = Inl (FileUploadException None (Some (OtherException ''ConnectionError'')))"
proof -
  let ?ok = "accepting_client [] []"
  let ?e = "OtherException ''ConnectionError''"
  note good = copy_object_one_call [of sample_globals ?ok "''a.json''" "''b.json''"]
  note bad = copy_object_one_call [of sample_globals "raising_client ?e" "''a.json''" "''b.json''"]
  have returns: "client_copy_object ?ok (bucket_name sample_globals) ''b.json''
      (CopySource (bucket_name sample_globals) ''a.json'') = Inr (PyObject ''ObjectWriteResult'')"
    by (simp add: accepting_client_def)
  have raises: "client_copy_object (raising_client ?e) (bucket_name sample_globals) ''b.json''
      (CopySource (bucket_name sample_globals) ''a.json'') = Inl ?e"
    by (simp add: raising_client_def)
  from good have "calls (copy_object sample_globals ?ok ''a.json'' ''b.json'') =
       [CopyObject (bucket_name sample_globals) ''b.json''
          (CopySource (bucket_name sample_globals) ''a.json'')]"
    by (rule conjunct1)
  then have issued: "calls (copy_object sample_globals ?ok ''a.json'' ''b.json'') =
       [CopyObject (Some ''models'') ''b.json'' (CopySource (Some ''models'') ''a.json'')]"
    by (simp add: sample_globals_def)
  from returns have "\<exists>v. client_copy_object ?ok (bucket_name sample_globals) ''b.json''
      (CopySource (bucket_name sample_globals) ''a.json'') = Inr v"
    by (rule exI)
  with good [THEN conjunct2, THEN conjunct2, THEN conjunct1]
  have copied: "result (copy_object sample_globals ?ok ''a.json'' ''b.json'') = Inr True"
    by (rule iffD2)
  from bad [THEN conjunct2, THEN conjunct2, THEN conjunct2, rule_format, OF raises]
  have failed: "result (copy_object sample_globals (raising_client ?e) ''a.json'' ''b.json'')
       = Inl (FileUploadException None (Some ?e))"
    by simp
  show ?thesis
    by (intro conjI returns issued copied raises failed)
qed

subsection \<open>The folder removal\<close>



text \<open>
  C9. The per-key errors that \<^verbatim>\<open>remove_objects\<close> returns are never looked at: whatever the
  list of errors, \<^verbatim>\<open>remove_objects_folder\<close> returns \<^verbatim>\<open>True\<close>, and its whole run is the run
  against a client that reports no error at all.
\<close>

theorem remove_objects_folder_drops_errors:
  "client_list_objects c (bucket_name g) p = Inr objs \<Longrightarrow>
   client_remove_objects c (bucket_name g)
     (map (\<lambda>obj. DeleteObject (object_name_of obj)) objs) = Inr errs \<Longrightarrow>
   result (remove_objects_folder g c p) = Inr True
   \<and> remove_objects_folder g c p
       = remove_objects_folder g (c\<lparr>client_remove_objects := \<lambda>_ _. Inr []\<rparr>) p"
  by (simp add: remove_objects_folder_listed result_def)

theorem remove_objects_folder_drops_errors_witness:
  "client_list_objects
      (accepting_client [Object ''custom/a.json'' ''1''] [DeleteError ''AccessDenied'' ''custom/a.json''])
      (bucket_name sample_globals) ''custom/'' = Inr [Object ''custom/a.json'' ''1'']
   \<and> client_remove_objects
      (accepting_client [Object ''custom/a.json'' ''1''] [DeleteError ''AccessDenied'' ''custom/a.json''])
      (bucket_name sample_globals) [DeleteObject ''custom/a.json'']
       = Inr [DeleteError ''AccessDenied'' ''custom/a.json'']
   \<and> result (remove_objects_folder sample_globals
      (accepting_client [Object ''custom/a.json'' ''1''] [DeleteError ''AccessDenied'' ''custom/a.json''])
      ''custom/'') = Inr True"
proof -
  let ?objs = "[Object ''custom/a.json'' ''1'']"
  let ?errs = "[DeleteError ''AccessDenied'' ''custom/a.json'']"
  let ?c = "accepting_client ?objs ?errs"
  have listed: "client_list_objects ?c (bucket_name sample_globals) ''custom/'' = Inr ?objs"
    by (simp add: accepting_client_def)
  have reported: "client_remove_objects ?c bk ds = Inr ?errs" for bk ds
    by (simp add: accepting_client_def)
  from remove_objects_folder_drops_errors [of ?c sample_globals "''custom/''" ?objs ?errs, OF listed reported]
  have "result (remove_objects_folder sample_globals ?c ''custom/'') = Inr True"
    by (rule conjunct1)
  with listed reported [of "bucket_name sample_globals" "[DeleteObject ''custom/a.json'']"]
  show ?thesis
    by (intro conjI)
qed

subsection \<open>The mapping of client exceptions\<close>

text \<open>
  C3. In each of the six operations that upload, copy or remove, an exception \<open>e\<close> raised
  by a client call ends the operation with a \<^verbatim>\<open>FileUploadException\<close>: one that carries
  the message of the operation, naming the object, when \<open>e\<close> is a \<^verbatim>\<open>MinioException\<close>, and
  one that wraps \<open>e\<close> otherwise. What is raised is never \<open>e\<close> itself.
\<close>

theorem client_exceptions_surface_as_FileUploadException:
  "(dumps h = Inr b \<and> client_put_object c (bucket_name g)
        (py_str (custom_files_folder g) @ ''/hyperparameters.json'')
        (BytesIO b 0) (length b) ''application/json'' = Inl e \<longrightarrow>
      result (upload_hyperparameters g dumps c h) =
           Inl (case e of
                  MinioException _ \<Rightarrow>
                      FileUploadException (Some (''Error uploading hyperparameters.json file to S3 bucket'')) None
                | _ \<Rightarrow> FileUploadException None (Some e))
      \<and> result (upload_hyperparameters g dumps c h) \<noteq> Inl e)
   \<and> (client_put_object c (bucket_name g)
        (py_str (custom_files_folder g) @ ''/reward_function.py'')
        buf (length (getvalue buf)) ''text/plain'' = Inl e \<longrightarrow>
      result (upload_reward_function g c buf) =
           Inl (case e of
                  MinioException _ \<Rightarrow>
                      FileUploadException (Some (''Error uploading reward_function.py  file to S3 bucket'')) None
                | _ \<Rightarrow> FileUploadException None (Some e))
      \<and> result (upload_reward_function g c buf) \<noteq> Inl e)
   \<and> (dumps' m = Inr b' \<and> client_put_object c (bucket_name g)
        (py_str (custom_files_folder g) @ ''/model_metadata.json'')
        (BytesIO b' 0) (length b') ''application/json'' = Inl e \<longrightarrow>
      result (upload_metadata g dumps' c m) =
           Inl (case e of
                  MinioException _ \<Rightarrow>
                      FileUploadException (Some (''Error uploading model_metadata.json  file to S3 bucket'')) None
                | _ \<Rightarrow> FileUploadException None (Some e))
      \<and> result (upload_metadata g dumps' c m) \<noteq> Inl e)
   \<and> (client_fput_object c (bucket_name g) name path = Inl e \<longrightarrow>
      result (upload_local_data g c path name) =
           Inl (case e of
                  MinioException _ \<Rightarrow>
                      FileUploadException (Some (''Error uploading '' @ name @ ''  file to S3 bucket'')) None
                | _ \<Rightarrow> FileUploadException None (Some e))
      \<and> result (upload_local_data g c path name) \<noteq> Inl e)
   \<and> (client_copy_object c (bucket_name g) dst (CopySource (bucket_name g) src) = Inl e \<longrightarrow>
      result (copy_object g c src dst) =
           Inl (case e of
                  MinioException _ \<Rightarrow> FileUploadException (Some (''Error copying '' @ src @ '' to '' @ dst)) None
                | _ \<Rightarrow> FileUploadException None (Some e))
      \<and> result (copy_object g c src dst) \<noteq> Inl e)
   \<and> (client_list_objects c (bucket_name g) p = Inl e \<longrightarrow>
      result (remove_objects_folder g c p) =
           Inl (case e of
                  MinioException _ \<Rightarrow> FileUploadException (Some (''Error deleting '' @ p @ '' folder'')) None
                | _ \<Rightarrow> FileUploadException None (Some e))
      \<and> result (remove_objects_folder g c p) \<noteq> Inl e)
   \<and> (client_list_objects c (bucket_name g) q = Inr objs
      \<and> client_remove_objects c (bucket_name g)
            (map (\<lambda>obj. DeleteObject (object_name_of obj)) objs) = Inl e \<longrightarrow>
      result (remove_objects_folder g c q) =
           Inl (case e of
                  MinioException _ \<Rightarrow> FileUploadException (Some (''Error deleting '' @ q @ '' folder'')) None
                | _ \<Rightarrow> FileUploadException None (Some e))
      \<and> result (remove_objects_folder g c q) \<noteq> Inl e)"
proof -
  have case_and_new:
    "r = Inl (case e of
                MinioException _ \<Rightarrow> FileUploadException (Some msg) None
              | _ \<Rightarrow> FileUploadException None (Some e))
     \<and> r \<noteq> Inl e"
    if "r = Inl (handlers msg e)" for r :: "bool outcome" and msg
    using that by (rule surfaced)
  show ?thesis
    by (intro conjI impI case_and_new; (elim conjE)?)
       (simp_all add: result_def upload_hyperparameters_run upload_metadata_run
          upload_reward_function_run upload_local_data_run copy_object_run
          remove_objects_folder_listed remove_objects_folder_not_listed)
qed

theorem client_exceptions_surface_as_FileUploadException_witness:
  "result (upload_hyperparameters sample_globals sample_dumps
             (raising_client (MinioException ''S3Error'')) True)
     = Inl (FileUploadException (Some ''Error uploading hyperparameters.json file to S3 bucket'') None)
   \<and> result (upload_reward_function sample_globals
             (raising_client (MinioException ''S3Error'')) (BytesIO ''return 1.0'' 0))
     = Inl (FileUploadException (Some ''Error uploading reward_function.py  file to S3 bucket'') None)
   \<and> result (upload_metadata sample_globals sample_dumps
             (raising_client (MinioException ''S3Error'')) True)
     = Inl (FileUploadException (Some ''Error uploading model_metadata.json  file to S3 bucket'') None)
   \<and> result (upload_local_data sample_globals
             (raising_client (MinioException ''S3Error'')) ''/tmp/model.tar.gz'' ''model.tar.gz'')
     = Inl (FileUploadException (Some ''Error uploading model.tar.gz  file to S3 bucket'') None)
   \<and> result (copy_object sample_globals
             (raising_client (MinioException ''S3Error'')) ''a.json'' ''b.json'')
     = Inl (FileUploadException (Some ''Error copying a.json to b.json'') None)
   \<and> result (remove_objects_folder sample_globals
             (raising_client (MinioException ''S3Error'')) ''custom/'')
     = Inl (FileUploadException (Some ''Error deleting custom/ folder'') None)
   \<and> result (remove_objects_folder sample_globals
             (raising_client (MinioException ''S3Error'')) ''models/'')
     = Inl (FileUploadException (Some ''Error deleting models/ folder'') None)"
proof -
  let ?e = "MinioException ''S3Error''"
  let ?c = "raising_client ?e"
  note fact = client_exceptions_surface_as_FileUploadException
    [of sample_dumps True "''true''" ?c sample_globals ?e "BytesIO ''return 1.0'' 0"
        sample_dumps True "''true''" "''model.tar.gz''" "''/tmp/model.tar.gz''"
        "''b.json''" "''a.json''" "''custom/''" "''models/''"
        "[Object ''models/a.tar'' ''0'']"]
  have d: "sample_dumps True = Inr ''true''"
    by (simp add: sample_dumps_def)
  have put: "client_put_object ?c bk k s n ct = Inl ?e" for bk k s n ct
    by (simp add: raising_client_def)
  have fput: "client_fput_object ?c bk k f = Inl ?e" for bk k f
    by (simp add: raising_client_def)
  have cp: "client_copy_object ?c bk k s = Inl ?e" for bk k s
    by (simp add: raising_client_def)
  have ls: "client_list_objects ?c (bucket_name sample_globals) ''custom/'' = Inl ?e"
    by (simp add: raising_client_def)
  have ls': "client_list_objects ?c (bucket_name sample_globals) ''models/''
               = Inr [Object ''models/a.tar'' ''0'']"
    by (simp add: raising_client_def)
  have rm: "client_remove_objects ?c bk ds = Inl ?e" for bk ds
    by (simp add: raising_client_def)
  from fact d put have 1: "result (upload_hyperparameters sample_globals sample_dumps ?c True)
     = Inl (FileUploadException (Some ''Error uploading hyperparameters.json file to S3 bucket'') None)"
    by simp
  from fact put have 2: "result (upload_reward_function sample_globals ?c (BytesIO ''return 1.0'' 0))
     = Inl (FileUploadException (Some ''Error uploading reward_function.py  file to S3 bucket'') None)"
    by simp
  from fact d put have 3: "result (upload_metadata sample_globals sample_dumps ?c True)
     = Inl (FileUploadException (Some ''Error uploading model_metadata.json  file to S3 bucket'') None)"
    by simp
  from fact fput have 4: "result (upload_local_data sample_globals ?c ''/tmp/model.tar.gz'' ''model.tar.gz'')
     = Inl (FileUploadException (Some ''Error uploading model.tar.gz  file to S3 bucket'') None)"
    by simp
  from fact cp have 5: "result (copy_object sample_globals ?c ''a.json'' ''b.json'')
     = Inl (FileUploadException (Some ''Error copying a.json to b.json'') None)"
    by simp
  from fact ls have 6: "result (remove_objects_folder sample_globals ?c ''custom/'')
     = Inl (FileUploadException (Some ''Error deleting custom/ folder'') None)"
    by simp
  from fact ls' rm have 7: "result (remove_objects_folder sample_globals ?c ''models/'')
     = Inl (FileUploadException (Some ''Error deleting models/ folder'') None)"
    by simp
  show ?thesis
    by (intro conjI 1 2 3 4 5 6 7)
qed

subsection \<open>The module configuration in use\<close>



subsection \<open>The metadata upload against the hyperparameters upload\<close>

text \<open>
  The two JSON uploads issue the same calls up to the object name, and they end the same
  way unless the client raises a \<^verbatim>\<open>MinioException\<close>.
\<close>

lemma upload_hyperparameters_is_named:
  "upload_hyperparameters g dumps c h
     = upload_hyperparameters_named ''hyperparameters.json'' g dumps c h"
  by (simp add: upload_hyperparameters_def upload_hyperparameters_named_def Let_def
      split: sum.splits)

lemma upload_metadata_calls_as_named:
  "calls (upload_metadata g dumps c m)
     = calls (upload_hyperparameters_named ''model_metadata.json'' g dumps c m)"
  by (simp add: upload_metadata_def upload_hyperparameters_named_def calls_def Let_def
      split: sum.splits)

lemma upload_metadata_as_named_unless_MinioException:
  assumes "\<And>b reason. dumps m = Inr b \<Longrightarrow>
             client_put_object c (bucket_name g)
               (py_str (custom_files_folder g) @ ''/model_metadata.json'')
               (BytesIO b 0) (length b) ''application/json'' \<noteq> Inl (MinioException reason)"
  shows "upload_metadata g dumps c m
           = upload_hyperparameters_named ''model_metadata.json'' g dumps c m"
proof (cases "dumps m")
  case (Inl err)
  then show ?thesis
    by (simp add: upload_metadata_def upload_hyperparameters_named_def)
next
  case (Inr b)
  show ?thesis
  proof (cases "client_put_object c (bucket_name g)
               (py_str (custom_files_folder g) @ ''/model_metadata.json'')
               (BytesIO b 0) (length b) ''application/json''")
    case (Inl e)
    with assms [OF Inr] have other: "e \<noteq> MinioException reason" for reason
      by simp
    have "handlers msg e = handlers msg' e" for msg msg'
      using other by (cases e) auto
    with Inl Inr show ?thesis
      by (simp add: upload_metadata_def upload_hyperparameters_named_def Let_def)
  next
    case (Inr res)
    with \<open>dumps m = Inr b\<close> show ?thesis
      by (simp add: upload_metadata_def upload_hyperparameters_named_def Let_def)
  qed
qed

text \<open>
  C10. Against a client whose \<^verbatim>\<open>put_object\<close> raises a \<^verbatim>\<open>MinioException\<close>, the message of
  \<^verbatim>\<open>upload_metadata\<close> has two spaces after the object name, where the message of
  \<^verbatim>\<open>upload_hyperparameters\<close> with the name \<^verbatim>\<open>model_metadata.json\<close> substituted has one: the
  two operations do not behave the same up to the object name.
\<close>

theorem upload_metadata_message_has_two_spaces:
  "result (upload_metadata sample_globals sample_dumps
             (raising_client (MinioException ''S3Error'')) True)
     = Inl (FileUploadException
              (Some ''Error uploading model_metadata.json  file to S3 bucket'') None)
   \<and> result (upload_hyperparameters_named ''model_metadata.json'' sample_globals sample_dumps
             (raising_client (MinioException ''S3Error'')) True)
     = Inl (FileUploadException
              (Some ''Error uploading model_metadata.json file to S3 bucket'') None)
   \<and> upload_metadata sample_globals sample_dumps
        (raising_client (MinioException ''S3Error'')) True
       \<noteq> upload_hyperparameters_named ''model_metadata.json'' sample_globals sample_dumps
           (raising_client (MinioException ''S3Error'')) True"
proof -
  let ?c = "raising_client (MinioException ''S3Error'')"
  have code: "result (upload_metadata sample_globals sample_dumps ?c True)
     = Inl (FileUploadException
              (Some ''Error uploading model_metadata.json  file to S3 bucket'') None)"
    by (simp add: upload_metadata_def sample_dumps_def raising_client_def result_def)
  have named: "result (upload_hyperparameters_named ''model_metadata.json'' sample_globals
             sample_dumps ?c True)
     = Inl (FileUploadException
              (Some ''Error uploading model_metadata.json file to S3 bucket'') None)"
    by (simp add: upload_hyperparameters_named_def sample_dumps_def raising_client_def result_def)
  have "result (upload_metadata sample_globals sample_dumps ?c True)
          \<noteq> result (upload_hyperparameters_named ''model_metadata.json'' sample_globals
                sample_dumps ?c True)"
    unfolding code named by simp
  then have differ: "upload_metadata sample_globals sample_dumps ?c True
       \<noteq> upload_hyperparameters_named ''model_metadata.json'' sample_globals sample_dumps ?c True"
    by auto
  show ?thesis
    by (intro conjI code named differ)
qed

end
